theory Spec2Isabelle
  imports Main "HOL-Library.Multiset"
begin

section \<open>Common conventions\<close>

text \<open>
  The development embeds the authentication core of the coaching backend:
  \<^item> a JavaScript \<^verbatim>\<open>Date\<close> is its number of milliseconds since the epoch, an \<open>int\<close>;
    \<^verbatim>\<open>new Date()\<close> is the parameter \<open>now\<close> of the operation that reads the clock;
  \<^item> an optional field (\<^verbatim>\<open>x?: T\<close>, a nullable column) is a \<open>T option\<close>;
  \<^item> a string is a \<open>string\<close> restricted to ASCII, so that \<^verbatim>\<open>length\<close> counts characters as
    the source's UTF-16 code units do;
  \<^item> \<^verbatim>\<open>throw new Error(msg)\<close> is the value \<open>Inl (Error msg)\<close> of a sum type;
  \<^item> an operation of the service runs alone, from its first read of the store to its
    last write, and reads the clock once.
\<close>

type_synonym date = int

datatype error = Error string

text \<open>Truthiness of an optional string: \<^verbatim>\<open>undefined\<close> and the empty string are falsy.\<close>

fun truthy :: "string option \<Rightarrow> bool" where
  "truthy None = False"
| "truthy (Some s) = (s \<noteq> [])"

definition newline :: string where
  "newline = [CHR 0x0A]"

section \<open>CoachTraineeAssignment: the status state machine\<close>

datatype AssignmentStatus = ACTIVE | PAUSED | COMPLETED | TERMINATED

text \<open>The columns of the entity that the four transitions read or write.\<close>

text \<open>\<open>notes_field\<close> is the column \<^verbatim>\<open>notes\<close>.\<close>

record assignment =
  coachId :: string
  traineeId :: string
  status :: AssignmentStatus
  assignedAt :: date
  endedAt :: "date option"
  pausedAt :: "date option"
  resumedAt :: "date option"
  isActive :: bool
  notes_field :: "string option"
  terminationReason :: "string option"
  terminatedBy :: "string option"

text \<open>
  \<^verbatim>\<open>this.notes ? `${this.notes}\n[TAG] ${reason}` : `[TAG] ${reason}`\<close>,
  the expression all four transitions use to extend the notes log.
\<close>

definition append_tagged :: "string option \<Rightarrow> string \<Rightarrow> string \<Rightarrow> string" where
  "append_tagged old tag reason =
     (if truthy old then the old @ newline @ tag @ '' '' @ reason
      else tag @ '' '' @ reason)"

definition pause :: "date \<Rightarrow> string option \<Rightarrow> string option \<Rightarrow> assignment \<Rightarrow> error + assignment" where
  "pause now reason pausedBy a =
     (if status a \<noteq> ACTIVE then Inl (Error ''Can only pause active assignments'')
      else
        let a1 = a\<lparr>status := PAUSED, pausedAt := Some now, isActive := False\<rparr>
        in Inr (if truthy reason
                then a1\<lparr>notes_field := Some (append_tagged (notes_field a1) ''[PAUSED]'' (the reason))\<rparr>
                else a1))"

definition resume :: "date \<Rightarrow> string option \<Rightarrow> assignment \<Rightarrow> error + assignment" where
  "resume now reason a =
     (if status a \<noteq> PAUSED then Inl (Error ''Can only resume paused assignments'')
      else
        let a1 = a\<lparr>status := ACTIVE, resumedAt := Some now, isActive := True\<rparr>
        in Inr (if truthy reason
                then a1\<lparr>notes_field := Some (append_tagged (notes_field a1) ''[RESUMED]'' (the reason))\<rparr>
                else a1))"

definition complete :: "date \<Rightarrow> string option \<Rightarrow> string option \<Rightarrow> assignment \<Rightarrow> error + assignment" where
  "complete now reason completedBy a =
     (if status a \<notin> set [ACTIVE, PAUSED]
      then Inl (Error ''Can only complete active or paused assignments'')
      else
        let a1 = a\<lparr>status := COMPLETED, endedAt := Some now, isActive := False,
                   terminatedBy := completedBy\<rparr>
        in Inr (if truthy reason
                then a1\<lparr>terminationReason := reason,
                        notes_field := Some (append_tagged (notes_field a1) ''[COMPLETED]'' (the reason))\<rparr>
                else a1))"

definition terminate :: "date \<Rightarrow> string \<Rightarrow> string option \<Rightarrow> assignment \<Rightarrow> error + assignment" where
  "terminate now reason by_user a =
     (if status a = TERMINATED then Inl (Error ''Assignment is already terminated'')
      else
        let a1 = a\<lparr>status := TERMINATED, endedAt := Some now, isActive := False,
                   terminationReason := Some reason, terminatedBy := by_user\<rparr>
        in Inr (a1\<lparr>notes_field := Some (append_tagged (notes_field a1) ''[TERMINATED]'' reason)\<rparr>))"

definition isCompleted :: "assignment \<Rightarrow> bool" where
  "isCompleted a = (status a = COMPLETED)"

section \<open>Session: validity and refresh eligibility\<close>

record session =
  sid :: string
  userId :: string
  token :: string
  refreshToken :: "string option"
  expiresAt :: date
  refreshTokenExpiresAt :: "date option"
  ipAddress :: "string option"
  userAgent :: "string option"
  deviceType :: "string option"
  browser :: "string option"
  os :: "string option"
  sessionActive :: bool
  lastAccessedAt :: "date option"
  revokedAt :: "date option"
  revokedBy :: "string option"
  revokedReason :: "string option"

text \<open>
  \<open>sid\<close> is the column \<^verbatim>\<open>id\<close> and \<open>sessionActive\<close> the column \<^verbatim>\<open>isActive\<close> of the
  session entity (the assignment record above already owns the name \<open>isActive\<close>).
\<close>

definition isExpired :: "date \<Rightarrow> session \<Rightarrow> bool" where
  "isExpired now s = (now > expiresAt s)"

definition isRefreshTokenExpired :: "date \<Rightarrow> session \<Rightarrow> bool" where
  "isRefreshTokenExpired now s =
     (case refreshTokenExpiresAt s of Some t \<Rightarrow> now > t | None \<Rightarrow> True)"

definition isValid :: "date \<Rightarrow> session \<Rightarrow> bool" where
  "isValid now s = (sessionActive s \<and> \<not> isExpired now s \<and> revokedAt s = None)"

definition canRefresh :: "date \<Rightarrow> session \<Rightarrow> bool" where
  "canRefresh now s = (sessionActive s \<and> \<not> isRefreshTokenExpired now s \<and> revokedAt s = None)"

definition revoke :: "date \<Rightarrow> string option \<Rightarrow> string option \<Rightarrow> session \<Rightarrow> session" where
  "revoke now reason by_user s =
     s\<lparr>sessionActive := False, revokedAt := Some now,
       revokedBy := Some (if truthy by_user then the by_user else ''system''),
       revokedReason := Some (if truthy reason then the reason else ''Session revoked'')\<rparr>"

text \<open>A session that expires at the very millisecond the clock shows.\<close>

definition boundary_session :: session where
  "boundary_session =
     \<lparr>sid = ''s1'', userId = ''u1'', token = ''t'', refreshToken = Some ''r'',
      expiresAt = 1000, refreshTokenExpiresAt = Some 1000, ipAddress = None,
      userAgent = None, deviceType = None, browser = None, os = None,
      sessionActive = True, lastAccessedAt = None, revokedAt = None,
      revokedBy = None, revokedReason = None\<rparr>"

section \<open>Strings as the source's string methods see them\<close>

definition lowercase :: string where
  "lowercase = ''abcdefghijklmnopqrstuvwxyz''"

definition uppercase :: string where
  "uppercase = ''ABCDEFGHIJKLMNOPQRSTUVWXYZ''"

definition numbers :: string where
  "numbers = ''0123456789''"

text \<open>The character classes of the regular expressions \<^verbatim>\<open>[A-Z]\<close>, \<^verbatim>\<open>[a-z]\<close> and \<^verbatim>\<open>\d\<close>.\<close>

definition is_upper :: "char \<Rightarrow> bool" where
  "is_upper c = (65 \<le> (of_char c :: nat) \<and> (of_char c :: nat) \<le> 90)"

definition is_lower :: "char \<Rightarrow> bool" where
  "is_lower c = (97 \<le> (of_char c :: nat) \<and> (of_char c :: nat) \<le> 122)"

definition is_digit :: "char \<Rightarrow> bool" where
  "is_digit c = (48 \<le> (of_char c :: nat) \<and> (of_char c :: nat) \<le> 57)"

text \<open>
  The class \<^verbatim>\<open>[!@#$%^&*()_+\-=\[\]{};':"\\|,.<>\/?]\<close> of the validator; the apostrophe,
  the double quote and the backslash are written by their codes.
\<close>

definition special_chars :: string where
  "special_chars =
     ''!@#$%^&*()_+-=[]{};'' @ [CHR 0x27] @ '':'' @ [CHR 0x22, CHR 0x5C] @ ''|,.<>/?''"

definition is_special :: "char \<Rightarrow> bool" where
  "is_special c = (c \<in> set special_chars)"

text \<open>\<^verbatim>\<open>toLowerCase\<close> on ASCII: the letters A to Z move to a to z, nothing else changes.\<close>

definition lower_char :: "char \<Rightarrow> char" where
  "lower_char c = (case map_of (zip uppercase lowercase) c of Some d \<Rightarrow> d | None \<Rightarrow> c)"

definition toLowerCase :: "string \<Rightarrow> string" where
  "toLowerCase s = map lower_char s"

text \<open>\<^verbatim>\<open>s.includes(sub)\<close>: \<open>sub\<close> occurs in \<open>s\<close> as a contiguous substring.\<close>

fun js_includes :: "string \<Rightarrow> string \<Rightarrow> bool" where
  "js_includes [] sub = (sub = [])"
| "js_includes (x # xs) sub = (take (length sub) (x # xs) = sub \<or> js_includes xs sub)"

text \<open>The white space that \<^verbatim>\<open>trim\<close> and \<^verbatim>\<open>parseInt\<close> skip, within ASCII.\<close>

definition is_space :: "char \<Rightarrow> bool" where
  "is_space c = (c \<in> set [CHR 0x09, CHR 0x0A, CHR 0x0B, CHR 0x0C, CHR 0x0D, CHR 0x20])"

definition trim :: "string \<Rightarrow> string" where
  "trim s = rev (dropWhile is_space (rev (dropWhile is_space s)))"

definition endsWith :: "string \<Rightarrow> string \<Rightarrow> bool" where
  "endsWith s suffix = (length suffix \<le> length s \<and> drop (length s - length suffix) s = suffix)"

section \<open>PasswordService\<close>

record PasswordValidation =
  pvIsValid :: bool
  errors :: "string list"

text \<open>\<open>pvIsValid\<close> is the field \<^verbatim>\<open>isValid\<close> of the interface \<^verbatim>\<open>PasswordValidation\<close>.\<close>

definition commonPasswords :: "string list" where
  "commonPasswords =
     [''password'', ''password123'', ''123456'', ''123456789'', ''qwerty'',
      ''abc123'', ''password1'', ''admin'', ''letmein'', ''welcome'']"

text \<open>\<^verbatim>\<open>/123456|abcdef|qwerty/.test(s)\<close>\<close>

definition sequential_test :: "string \<Rightarrow> bool" where
  "sequential_test s =
     (js_includes s ''123456'' \<or> js_includes s ''abcdef'' \<or> js_includes s ''qwerty'')"

text \<open>
  \<open>push_if c msg\<close> is the statement \<^verbatim>\<open>if (c) { errors.push(msg) }\<close> as the list it adds
  to the end of \<^verbatim>\<open>errors\<close>.
\<close>

definition push_if :: "bool \<Rightarrow> string \<Rightarrow> string list" where
  "push_if c msg = (if c then [msg] else [])"

definition validatePassword :: "string \<Rightarrow> PasswordValidation" where
  "validatePassword password =
     (if password = [] then \<lparr>pvIsValid = False, errors = [''Password is required'']\<rparr>
      else
        let errs =
              push_if (length password < 8) ''Password must be at least 8 characters long''
            @ push_if (length password > 128)
                ''Password must be no more than 128 characters long''
            @ push_if (\<not> list_ex is_upper password)
                ''Password must contain at least one uppercase letter''
            @ push_if (\<not> list_ex is_lower password)
                ''Password must contain at least one lowercase letter''
            @ push_if (\<not> list_ex is_digit password)
                ''Password must contain at least one number''
            @ push_if (\<not> list_ex is_special password)
                ''Password must contain at least one special character''
            @ push_if (toLowerCase password \<in> set commonPasswords)
                ''Password is too common. Please choose a stronger password''
            @ push_if (sequential_test (toLowerCase password))
                ''Password should not contain sequential characters''
        in \<lparr>pvIsValid = (length errs = 0), errors = errs\<rparr>)"

subsection \<open>generateRandomPassword\<close>

definition symbols :: string where
  "symbols = ''!@#$%^&*()_+-=[]{}|;:,.<>?''"

definition allChars :: string where
  "allChars = lowercase @ uppercase @ numbers @ symbols"

text \<open>
  \<^verbatim>\<open>s[Math.floor(Math.random() * s.length)]\<close>: the random source is a sequence of
  natural numbers, one per call of \<^verbatim>\<open>Math.random\<close>, and the draw \<open>r\<close> selects the index
  \<open>r mod length s\<close>, so that every index of \<open>s\<close> and no other can be selected.
\<close>

definition pick :: "nat \<Rightarrow> string \<Rightarrow> char" where
  "pick r s = s ! (r mod length s)"

text \<open>The loop \<^verbatim>\<open>for (let i = 4; i < length; i++) password += allChars[...]\<close>.\<close>

function fill :: "(nat \<Rightarrow> nat) \<Rightarrow> int \<Rightarrow> int \<Rightarrow> string \<Rightarrow> string" where
  "fill rnd i len pw =
     (if i < len then fill rnd (i + 1) len (pw @ [pick (rnd (nat i)) allChars]) else pw)"
  by pat_completeness auto
termination
  by (relation "measure (\<lambda>(rnd, i, len, pw). nat (len - i))") auto

declare fill.simps [simp del]

text \<open>
  The requested length is an integer. The last line of the source sorts the characters
  with a comparator that answers at random; \<open>shuffle\<close> stands for that sort, of which
  the theorems assume only that it returns a permutation of its argument.
\<close>

definition generateRandomPassword :: "(nat \<Rightarrow> nat) \<Rightarrow> (string \<Rightarrow> string) \<Rightarrow> int \<Rightarrow> string" where
  "generateRandomPassword rnd shuffle len =
     (let pw0 = [pick (rnd 0) lowercase];
          pw1 = pw0 @ [pick (rnd 1) uppercase];
          pw2 = pw1 @ [pick (rnd 2) numbers];
          pw3 = pw2 @ [pick (rnd 3) symbols]
      in shuffle (fill rnd 4 len pw3))"

section \<open>JWTService.getAccessTokenExpirationTime\<close>

text \<open>
  A JavaScript number as far as this function can produce one: an integer that a
  double holds exactly (magnitude at most \<open>2 ^ 53\<close>), \<^verbatim>\<open>NaN\<close>, or a double of larger
  magnitude, which the source rounds and whose value is left open here.
\<close>

datatype number = Num int | NaN | Rounded

definition num :: "int \<Rightarrow> number" where
  "num n = (if \<bar>n\<bar> \<le> 2 ^ 53 then Num n else Rounded)"

fun times :: "number \<Rightarrow> int \<Rightarrow> number" where
  "times (Num n) k = num (n * k)"
| "times NaN k = NaN"
| "times Rounded k = Rounded"

text \<open>The value of a character as a digit, for radix up to 36.\<close>

definition digit_value :: "char \<Rightarrow> nat option" where
  "digit_value c =
     (if is_digit c then Some (of_char c - 48)
      else if is_lower c then Some (of_char c - 87)
      else if is_upper c then Some (of_char c - 55)
      else None)"

definition is_radix_digit :: "nat \<Rightarrow> char \<Rightarrow> bool" where
  "is_radix_digit R c = (case digit_value c of Some v \<Rightarrow> v < R | None \<Rightarrow> False)"

definition digits_value :: "nat \<Rightarrow> string \<Rightarrow> nat" where
  "digits_value R z = foldl (\<lambda>n c. n * R + the (digit_value c)) 0 z"

text \<open>
  \<^verbatim>\<open>parseInt(s)\<close> with no radix argument, after ECMAScript: skip leading white space,
  read a sign, read a \<^verbatim>\<open>0x\<close> prefix as radix 16, take the longest prefix of digits of
  the radix, and answer \<^verbatim>\<open>NaN\<close> when that prefix is empty.
\<close>

definition parseInt :: "string \<Rightarrow> number" where
  "parseInt s =
     (let s1 = dropWhile is_space s;
          sign = (if take 1 s1 = ''-'' then - 1 else (1::int));
          s2 = (if take 1 s1 = ''-'' \<or> take 1 s1 = ''+'' then drop 1 s1 else s1);
          hex = (take 2 s2 = ''0x'' \<or> take 2 s2 = ''0X'');
          R = (if hex then 16 else 10);
          s3 = (if hex then drop 2 s2 else s2);
          z = takeWhile (is_radix_digit R) s3
      in if z = [] then NaN else num (sign * int (digits_value R z)))"

text \<open>
  The configured expiry: \<open>Some e\<close> when \<^verbatim>\<open>typeof expiresIn === 'string'\<close>, \<open>None\<close>
  otherwise. \<open>butlast e\<close> is \<^verbatim>\<open>expiresIn.slice(0, -1)\<close>.
\<close>

definition getAccessTokenExpirationTime :: "string option \<Rightarrow> number" where
  "getAccessTokenExpirationTime expiresIn =
     (case expiresIn of
        Some e \<Rightarrow>
          if endsWith e ''h'' then times (parseInt (butlast e)) 3600
          else if endsWith e ''m'' then times (parseInt (butlast e)) 60
          else if endsWith e ''d'' then times (parseInt (butlast e)) 86400
          else if endsWith e ''s'' then parseInt (butlast e)
          else parseInt e
      | None \<Rightarrow> Num 3600)"


section \<open>Session creation\<close>

text \<open>\<^verbatim>\<open>parseUserAgent\<close>: best-effort classification by substring tests, in source order.\<close>

definition parseUserAgent :: "string \<Rightarrow> session \<Rightarrow> session" where
  "parseUserAgent ua s =
     s\<lparr>userAgent := Some ua,
       deviceType := Some (if js_includes ua ''Mobile'' then ''mobile''
                           else if js_includes ua ''Tablet'' then ''tablet''
                           else ''desktop''),
       browser := Some (if js_includes ua ''Chrome'' then ''Chrome''
                        else if js_includes ua ''Firefox'' then ''Firefox''
                        else if js_includes ua ''Safari'' then ''Safari''
                        else if js_includes ua ''Edge'' then ''Edge''
                        else ''Other''),
       os := Some (if js_includes ua ''Windows'' then ''Windows''
                   else if js_includes ua ''Mac'' then ''macOS''
                   else if js_includes ua ''Linux'' then ''Linux''
                   else if js_includes ua ''Android'' then ''Android''
                   else if js_includes ua ''iOS'' then ''iOS''
                   else ''Other'')\<rparr>"

text \<open>
  The values a call draws from outside: the primary keys the store generates and the
  random strings of \<^verbatim>\<open>Math.random\<close> and \<^verbatim>\<open>crypto.randomBytes\<close>.
\<close>

record draws =
  new_user_id :: string
  new_session_id :: string
  random_token :: string
  session_token :: string
  session_refresh_token :: string

text \<open>
  The \<^verbatim>\<open>BeforeInsert\<close> hook \<^verbatim>\<open>generateTokens\<close> of the session entity. Its third branch, the
  default for a missing \<^verbatim>\<open>expiresAt\<close>, has no counterpart: every session of this model
  is created with an expiry.
\<close>

definition session_generateTokens :: "date \<Rightarrow> draws \<Rightarrow> session \<Rightarrow> session" where
  "session_generateTokens now dr s =
     (let s1 = (if token s = [] then s\<lparr>token := session_token dr\<rparr> else s);
          s2 = (if truthy (refreshToken s1) then s1
                else s1\<lparr>refreshToken := Some (session_refresh_token dr)\<rparr>)
      in case refreshTokenExpiresAt s2 of
           None \<Rightarrow> s2\<lparr>refreshTokenExpiresAt := Some (now + 7 * 24 * 60 * 60 * 1000)\<rparr>
         | Some t \<Rightarrow> s2)"

section \<open>User entity and the store\<close>

datatype UserRole = ADMIN | COACH | CLIENT

text \<open>\<open>uid\<close> is the column \<^verbatim>\<open>id\<close> and \<open>userActive\<close> the column \<^verbatim>\<open>isActive\<close> of the user entity.\<close>

record user =
  uid :: string
  email :: string
  username :: string
  password :: string
  firstName :: string
  lastName :: string
  role :: UserRole
  userActive :: bool
  isEmailVerified :: bool
  emailVerificationToken :: "string option"
  emailVerificationExpires :: "date option"
  passwordResetToken :: "string option"
  passwordResetExpires :: "date option"
  lastLoginAt :: "date option"

text \<open>
  The two tables, each in the order in which the store scans it: \<^verbatim>\<open>findOne\<close> and
  \<^verbatim>\<open>getOne\<close> carry no \<^verbatim>\<open>ORDER BY\<close> and answer with the first row that matches.
  Failures of the store itself are not modelled.
\<close>

record db =
  users :: "user list"
  sessions :: "session list"

text \<open>What \<^verbatim>\<open>jwt.verify\<close> can do: throw one of its two error classes, or return the
  decoded payload, an object or a bare string.\<close>

record jwt_payload =
  p_userId :: "string option"
  p_sessionId :: "string option"
  p_type :: "string option"

datatype jwt_outcome =
  Decoded jwt_payload | DecodedString string | TokenExpiredError | JsonWebTokenError

text \<open>
  The libraries and the configuration the service is linked against: bcrypt (the
  salt it draws is not modelled), jsonwebtoken with the server's secret, and the
  configured access-token expiry.
\<close>

record libs =
  bcrypt_hash :: "string \<Rightarrow> nat \<Rightarrow> string"
  bcrypt_compare :: "string \<Rightarrow> string \<Rightarrow> bool"
  jwt_verify :: "string \<Rightarrow> jwt_outcome"
  jwt_sign_access :: "string \<Rightarrow> string \<Rightarrow> UserRole \<Rightarrow> string \<Rightarrow> string"
  jwt_sign_refresh :: "string \<Rightarrow> string \<Rightarrow> string"
  jwt_expires_in :: "string option"

subsection \<open>Lifecycle hooks of the user entity\<close>

definition hashPassword :: "libs \<Rightarrow> user \<Rightarrow> user" where
  "hashPassword L u =
     (if password u \<noteq> [] then u\<lparr>password := bcrypt_hash L (password u) 12\<rparr> else u)"

definition normalizeEmail :: "user \<Rightarrow> user" where
  "normalizeEmail u = (if email u \<noteq> [] then u\<lparr>email := trim (toLowerCase (email u))\<rparr> else u)"

definition validatePassword_user :: "libs \<Rightarrow> string \<Rightarrow> user \<Rightarrow> bool" where
  "validatePassword_user L plainPassword u = bcrypt_compare L plainPassword (password u)"

definition generateEmailVerificationToken :: "libs \<Rightarrow> date \<Rightarrow> draws \<Rightarrow> user \<Rightarrow> user" where
  "generateEmailVerificationToken L now dr u =
     u\<lparr>emailVerificationToken := Some (bcrypt_hash L (random_token dr) 10),
       emailVerificationExpires := Some (now + 86400000)\<rparr>"

definition generatePasswordResetToken :: "libs \<Rightarrow> date \<Rightarrow> draws \<Rightarrow> user \<Rightarrow> user" where
  "generatePasswordResetToken L now dr u =
     u\<lparr>passwordResetToken := Some (bcrypt_hash L (random_token dr) 10),
       passwordResetExpires := Some (now + 3600000)\<rparr>"

subsection \<open>Repository operations\<close>

text \<open>
  \<^verbatim>\<open>save\<close> of a new user: the \<^verbatim>\<open>BeforeInsert\<close> hooks run in the order of their
  declaration, the store assigns the primary key, the row is appended.
\<close>

definition insert_user :: "libs \<Rightarrow> draws \<Rightarrow> user \<Rightarrow> db \<Rightarrow> user \<times> db" where
  "insert_user L dr u d =
     (let u' = (normalizeEmail (hashPassword L u))\<lparr>uid := new_user_id dr\<rparr>
      in (u', d\<lparr>users := users d @ [u']\<rparr>))"

text \<open>
  \<^verbatim>\<open>save\<close> skips every property of the entity that is \<^verbatim>\<open>undefined\<close>: the column keeps
  the value the row has. \<open>written_row r u\<close> is the row that saving the entity \<open>u\<close> over
  the stored row \<open>r\<close> leaves: the optional columns that \<open>u\<close> does not define come from
  \<open>r\<close>, all others from \<open>u\<close>. (\<open>None\<close> is \<^verbatim>\<open>undefined\<close> as well as the \<^verbatim>\<open>null\<close> of a column
  loaded empty; for the latter the row holds \<open>None\<close> too, and the result is the same.)
\<close>

definition keep_defined :: "'a option \<Rightarrow> 'a option \<Rightarrow> 'a option" where
  "keep_defined new old = (case new of None \<Rightarrow> old | Some v \<Rightarrow> Some v)"

definition written_row :: "user \<Rightarrow> user \<Rightarrow> user" where
  "written_row r u =
     u\<lparr>emailVerificationToken :=
         keep_defined (emailVerificationToken u) (emailVerificationToken r),
       emailVerificationExpires :=
         keep_defined (emailVerificationExpires u) (emailVerificationExpires r),
       passwordResetToken := keep_defined (passwordResetToken u) (passwordResetToken r),
       passwordResetExpires :=
         keep_defined (passwordResetExpires u) (passwordResetExpires r),
       lastLoginAt := keep_defined (lastLoginAt u) (lastLoginAt r)\<rparr>"

text \<open>
  \<^verbatim>\<open>save\<close> of a user that was loaded from the store, found by its primary key. When
  no column that the entity defines differs from the stored row, nothing happens.
  Otherwise the \<^verbatim>\<open>BeforeUpdate\<close> hooks run on the entity and the row is updated; the
  store writes the new version of an updated row behind the rows it holds, so that a
  later scan meets it last. An entity whose key the store does not know is inserted
  under that key.
\<close>

definition save_user :: "libs \<Rightarrow> user \<Rightarrow> db \<Rightarrow> user \<times> db" where
  "save_user L u d =
     (case find (\<lambda>r. uid r = uid u) (users d) of
        Some r \<Rightarrow>
          if written_row r u = r then (u, d)
          else
            let u' = normalizeEmail (hashPassword L u)
            in (u', d\<lparr>users := filter (\<lambda>x. uid x \<noteq> uid u) (users d) @ [written_row r u']\<rparr>)
      | None \<Rightarrow>
          let u' = normalizeEmail (hashPassword L u)
          in (u', d\<lparr>users := users d @ [u']\<rparr>))"

text \<open>
  \<^verbatim>\<open>sessionRepository.update({ userId, isActive: true }, { isActive: false, ... })\<close>, the
  bulk revocation that logout-all, password change and password reset issue. The
  updated rows follow the untouched ones, as for every update of the store.
\<close>

definition revoke_active_sessions :: "date \<Rightarrow> string \<Rightarrow> string \<Rightarrow> db \<Rightarrow> db" where
  "revoke_active_sessions now owner reason d =
     d\<lparr>sessions :=
         filter (\<lambda>s. \<not> (userId s = owner \<and> sessionActive s)) (sessions d)
         @ map (\<lambda>s. s\<lparr>sessionActive := False, revokedAt := Some now,
                         revokedReason := Some reason, revokedBy := Some ''user''\<rparr>)
             (filter (\<lambda>s. userId s = owner \<and> sessionActive s) (sessions d))\<rparr>"

section \<open>JWTService.verifyRefreshToken\<close>

text \<open>
  What the function throws: an \<^verbatim>\<open>AuthError\<close> with message, status code and code, or the
  plain \<^verbatim>\<open>Error\<close> of a payload that is not an object.
\<close>

datatype auth_error = AuthError string nat string | PlainError string

definition verifyRefreshToken :: "libs \<Rightarrow> string \<Rightarrow> auth_error + string \<times> string" where
  "verifyRefreshToken L tok =
     (case jwt_verify L tok of
        Decoded payload \<Rightarrow>
          if p_type payload \<noteq> Some ''refresh''
          then Inl (AuthError ''Invalid refresh token'' 401 ''INVALID_REFRESH_TOKEN'')
          else if truthy (p_userId payload) \<and> truthy (p_sessionId payload)
          then Inr (the (p_userId payload), the (p_sessionId payload))
          else Inl (AuthError ''Invalid refresh token payload'' 401 ''INVALID_REFRESH_TOKEN'')
      | DecodedString str \<Rightarrow> Inl (PlainError ''Invalid token payload'')
      | TokenExpiredError \<Rightarrow>
          Inl (AuthError ''Refresh token expired'' 401 ''REFRESH_TOKEN_EXPIRED'')
      | JsonWebTokenError \<Rightarrow>
          Inl (AuthError ''Invalid refresh token'' 401 ''INVALID_REFRESH_TOKEN''))"

section \<open>AuthService\<close>

record user_view =
  view_id :: string
  view_email :: string
  view_username :: string
  view_firstName :: string
  view_lastName :: string
  view_role :: UserRole
  view_isEmailVerified :: bool

record token_pair =
  accessToken :: string
  refreshTokenJwt :: string
  expiresIn :: number

record AuthResponse =
  success :: bool
  message :: "string option"
  user_out :: "user_view option"
  tokens :: "token_pair option"

record LoginRequest =
  login_email :: string
  login_password :: string
  rememberMe :: bool

record RegisterRequest =
  reg_email :: string
  reg_username :: string
  reg_password :: string
  reg_firstName :: string
  reg_lastName :: string

record ResetPasswordRequest =
  reset_token :: string
  newPassword :: string

text \<open>The response \<^verbatim>\<open>{ success: false, message }\<close>.\<close>

definition failure :: "string \<Rightarrow> AuthResponse" where
  "failure m = \<lparr>success = False, message = Some m, user_out = None, tokens = None\<rparr>"

definition view_of :: "user \<Rightarrow> user_view" where
  "view_of u =
     \<lparr>view_id = uid u, view_email = email u, view_username = username u,
      view_firstName = firstName u, view_lastName = lastName u, view_role = role u,
      view_isEmailVerified = isEmailVerified u\<rparr>"

definition succeeded :: "string \<Rightarrow> user \<Rightarrow> token_pair \<Rightarrow> AuthResponse" where
  "succeeded m u t =
     \<lparr>success = True, message = Some m, user_out = Some (view_of u), tokens = Some t\<rparr>"

text \<open>\<^verbatim>\<open>errors.join(', ')\<close>\<close>

fun join :: "string \<Rightarrow> string list \<Rightarrow> string" where
  "join sep [] = []"
| "join sep [x] = x"
| "join sep (x # y # ys) = x @ sep @ join sep (y # ys)"

definition createSession ::
  "date \<Rightarrow> draws \<Rightarrow> user \<Rightarrow> string option \<Rightarrow> string option \<Rightarrow> int \<Rightarrow> db \<Rightarrow> session \<times> db" where
  "createSession now dr u ip ua expirationHours d =
     (let s0 = \<lparr>sid = [], userId = uid u, token = [], refreshToken = None,
                expiresAt = now + expirationHours * 60 * 60 * 1000,
                refreshTokenExpiresAt = None, ipAddress = ip, userAgent = None,
                deviceType = None, browser = None, os = None, sessionActive = True,
                lastAccessedAt = None, revokedAt = None, revokedBy = None,
                revokedReason = None\<rparr>;
          s1 = (if truthy ua then parseUserAgent (the ua) s0 else s0);
          s2 = (session_generateTokens now dr s1)\<lparr>sid := new_session_id dr\<rparr>
      in (s2, d\<lparr>sessions := sessions d @ [s2]\<rparr>))"

definition generateTokens :: "libs \<Rightarrow> user \<Rightarrow> session \<Rightarrow> token_pair" where
  "generateTokens L u s =
     \<lparr>accessToken = jwt_sign_access L (uid u) (email u) (role u) (sid s),
      refreshTokenJwt = jwt_sign_refresh L (uid u) (sid s),
      expiresIn = getAccessTokenExpirationTime (jwt_expires_in L)\<rparr>"

definition register ::
  "libs \<Rightarrow> date \<Rightarrow> draws \<Rightarrow> RegisterRequest \<Rightarrow> string option \<Rightarrow> string option \<Rightarrow> db
     \<Rightarrow> AuthResponse \<times> db" where
  "register L now dr data ip ua d =
     (case find (\<lambda>u. email u = trim (toLowerCase (reg_email data))
                      \<or> username u = reg_username data) (users d) of
        Some existingUser \<Rightarrow>
          (failure (if email existingUser = trim (toLowerCase (reg_email data))
                    then ''Email already registered'' else ''Username already taken''), d)
      | None \<Rightarrow>
          let passwordValidation = validatePassword (reg_password data)
          in if pvIsValid passwordValidation
             then
               let u0 = \<lparr>uid = [], email = trim (toLowerCase (reg_email data)),
                          username = reg_username data, password = reg_password data,
                          firstName = reg_firstName data, lastName = reg_lastName data,
                          role = CLIENT, userActive = True, isEmailVerified = False,
                          emailVerificationToken = None, emailVerificationExpires = None,
                          passwordResetToken = None, passwordResetExpires = None,
                          lastLoginAt = None\<rparr>;
                   u1 = generateEmailVerificationToken L now dr u0;
                   (savedUser, d1) = insert_user L dr u1 d;
                   (s, d2) = createSession now dr savedUser ip ua 24 d1
               in (succeeded
                     ''Registration successful. Please check your email to verify your account.''
                     savedUser (generateTokens L savedUser s), d2)
             else (failure (join '', '' (errors passwordValidation)), d))"

definition login ::
  "libs \<Rightarrow> date \<Rightarrow> draws \<Rightarrow> LoginRequest \<Rightarrow> string option \<Rightarrow> string option \<Rightarrow> db
     \<Rightarrow> AuthResponse \<times> db" where
  "login L now dr data ip ua d =
     (case find (\<lambda>u. email u = trim (toLowerCase (login_email data))) (users d) of
        None \<Rightarrow> (failure ''Invalid email or password'', d)
      | Some u \<Rightarrow>
          if userActive u
          then
            if validatePassword_user L (login_password data) u
            then
              let (u', d1) = save_user L (u\<lparr>lastLoginAt := Some now\<rparr>) d;
                  (s, d2) = createSession now dr u' ip ua (if rememberMe data then 7 * 24 else 24) d1
              in (succeeded ''Login successful'' u' (generateTokens L u' s), d2)
            else (failure ''Invalid email or password'', d)
          else (failure ''Invalid email or password'', d))"

text \<open>
  \<open>refreshToken\<close> writes nothing. Whatever \<open>verifyRefreshToken\<close> throws is caught by the
  \<^verbatim>\<open>catch\<close> of the function.
\<close>

definition refreshToken_op :: "libs \<Rightarrow> date \<Rightarrow> string \<Rightarrow> db \<Rightarrow> AuthResponse" where
  "refreshToken_op L now tok d =
     (case verifyRefreshToken L tok of
        Inl e \<Rightarrow> failure ''Token refresh failed''
      | Inr (owner, sessionId) \<Rightarrow>
          (case find (\<lambda>u. uid u = owner \<and> userActive u) (users d) of
             None \<Rightarrow> failure ''Invalid or expired refresh token''
           | Some u \<Rightarrow>
               (case find (\<lambda>s. sid s = sessionId \<and> userId s = owner \<and> sessionActive s)
                       (sessions d) of
                  None \<Rightarrow> failure ''Invalid or expired refresh token''
                | Some s \<Rightarrow>
                    if canRefresh now s
                    then succeeded ''Token refreshed successfully'' u (generateTokens L u s)
                    else failure ''Invalid or expired refresh token'')))"

record SimpleResponse =
  ok :: bool
  msg :: string

text \<open>\<^verbatim>\<open>.where('user.passwordResetExpires > :now').getOne()\<close>\<close>

definition reset_pending :: "date \<Rightarrow> user \<Rightarrow> bool" where
  "reset_pending now u = (case passwordResetExpires u of Some t \<Rightarrow> t > now | None \<Rightarrow> False)"

definition resetPassword ::
  "libs \<Rightarrow> date \<Rightarrow> ResetPasswordRequest \<Rightarrow> db \<Rightarrow> SimpleResponse \<times> db" where
  "resetPassword L now data d =
     (let passwordValidation = validatePassword (newPassword data)
      in if pvIsValid passwordValidation
         then
           (case find (reset_pending now) (users d) of
              None \<Rightarrow> (\<lparr>ok = False, msg = ''Invalid or expired reset token''\<rparr>, d)
            | Some u \<Rightarrow>
                if truthy (passwordResetToken u)
                then
                  if bcrypt_compare L (reset_token data) (the (passwordResetToken u))
                  then
                    let (u', d1) = save_user L (u\<lparr>password := newPassword data,
                                                 passwordResetToken := None,
                                                 passwordResetExpires := None\<rparr>) d
                    in (\<lparr>ok = True, msg = ''Password reset successfully''\<rparr>,
                        revoke_active_sessions now (uid u') ''Password reset'' d1)
                  else (\<lparr>ok = False, msg = ''Invalid or expired reset token''\<rparr>, d)
                else (\<lparr>ok = False, msg = ''Invalid or expired reset token''\<rparr>, d))
         else (\<lparr>ok = False, msg = join '', '' (errors passwordValidation)\<rparr>, d))"

section \<open>A concrete installation, for evaluating the service\<close>

text \<open>
  A stand-in for the two libraries: a hash that prefixes its argument, so that
  \<open>bcrypt_compare p h\<close> holds exactly for \<open>h\<close> the hash of \<open>p\<close>, and a verifier that knows
  one refresh token, one access token and one expired token, and rejects the signature
  of every other string.
\<close>

definition demo_verify :: "string \<Rightarrow> jwt_outcome" where
  "demo_verify tok =
     (if tok = ''refresh.u1.s1''
      then Decoded \<lparr>p_userId = Some ''u1'', p_sessionId = Some ''s1'',
                    p_type = Some ''refresh''\<rparr>
      else if tok = ''access.u1.s1''
      then Decoded \<lparr>p_userId = Some ''u1'', p_sessionId = Some ''s1'', p_type = None\<rparr>
      else if tok = ''stale'' then TokenExpiredError
      else JsonWebTokenError)"

definition demo_libs :: libs where
  "demo_libs =
     \<lparr>bcrypt_hash = (\<lambda>p cost. ''$2a$'' @ p),
      bcrypt_compare = (\<lambda>p h. h = ''$2a$'' @ p),
      jwt_verify = demo_verify,
      jwt_sign_access = (\<lambda>u e r s. ''access.'' @ u @ ''.'' @ s),
      jwt_sign_refresh = (\<lambda>u s. ''refresh.'' @ u @ ''.'' @ s),
      jwt_expires_in = Some ''1h''\<rparr>"

definition demo_draws :: draws where
  "demo_draws =
     \<lparr>new_user_id = ''u1'', new_session_id = ''s1'', random_token = ''v3rify'',
      session_token = ''aa11'', session_refresh_token = ''bb22''\<rparr>"

definition demo_draws2 :: draws where
  "demo_draws2 =
     \<lparr>new_user_id = ''u2'', new_session_id = ''s2'', random_token = ''r4ndom'',
      session_token = ''cc33'', session_refresh_token = ''dd44''\<rparr>"

definition demo_draws3 :: draws where
  "demo_draws3 =
     \<lparr>new_user_id = ''u3'', new_session_id = ''s3'', random_token = ''t0ken'',
      session_token = ''ee55'', session_refresh_token = ''ff66''\<rparr>"

definition alice_request :: RegisterRequest where
  "alice_request =
     \<lparr>reg_email = ''Alice@Example.com'', reg_username = ''alice'',
      reg_password = ''Passw0rd!'', reg_firstName = ''Alice'', reg_lastName = ''A''\<rparr>"

definition alice_login :: LoginRequest where
  "alice_login =
     \<lparr>login_email = ''alice@example.com'', login_password = ''Passw0rd!'',
      rememberMe = False\<rparr>"

definition empty_db :: db where
  "empty_db = \<lparr>users = [], sessions = []\<rparr>"

text \<open>The rows that registering Alice at time 0 in the empty store leaves behind.\<close>

definition alice_row :: user where
  "alice_row =
     \<lparr>uid = ''u1'', email = ''alice@example.com'', username = ''alice'',
      password = ''$2a$Passw0rd!'', firstName = ''Alice'', lastName = ''A'', role = CLIENT,
      userActive = True, isEmailVerified = False,
      emailVerificationToken = Some ''$2a$v3rify'',
      emailVerificationExpires = Some 86400000, passwordResetToken = None,
      passwordResetExpires = None, lastLoginAt = None\<rparr>"

definition alice_session :: session where
  "alice_session =
     \<lparr>sid = ''s1'', userId = ''u1'', token = ''aa11'', refreshToken = Some ''bb22'',
      expiresAt = 86400000, refreshTokenExpiresAt = Some 604800000, ipAddress = None,
      userAgent = None, deviceType = None, browser = None, os = None,
      sessionActive = True, lastAccessedAt = None, revokedAt = None, revokedBy = None,
      revokedReason = None\<rparr>"

definition db_registered :: db where
  "db_registered = \<lparr>users = [alice_row], sessions = [alice_session]\<rparr>"

text \<open>
  Bob, a second user. In \<open>db_two_pending\<close> both hold a password-reset token that expires
  at time 5000, Bob's row first; Bob's user name is the one a later request asks for.
\<close>

definition bob_row :: user where
  "bob_row =
     \<lparr>uid = ''u0'', email = ''bob@example.com'', username = ''bobby'',
      password = ''$2a$B0b-secret'', firstName = ''Bob'', lastName = ''B'', role = CLIENT,
      userActive = True, isEmailVerified = True, emailVerificationToken = None,
      emailVerificationExpires = None, passwordResetToken = Some ''$2a$bobtoken'',
      passwordResetExpires = Some 5000, lastLoginAt = None\<rparr>"

definition db_two_pending :: db where
  "db_two_pending =
     \<lparr>users = [bob_row,
               alice_row\<lparr>passwordResetToken := Some ''$2a$alicetoken'',
                         passwordResetExpires := Some 5000\<rparr>],
      sessions = [alice_session]\<rparr>"

definition alice_reset :: ResetPasswordRequest where
  "alice_reset = \<lparr>reset_token = ''alicetoken'', newPassword = ''N3w-Passw0rd!''\<rparr>"

definition collide_request :: RegisterRequest where
  "collide_request =
     \<lparr>reg_email = '' Alice@Example.com '', reg_username = ''bobby'',
      reg_password = ''Passw0rd!'', reg_firstName = ''Al'', reg_lastName = ''Ice''\<rparr>"

definition db_two_users :: db where
  "db_two_users = \<lparr>users = [bob_row, alice_row], sessions = []\<rparr>"

section \<open>Theorems: assignment state machine\<close>

text \<open>
  C7. Each transition either fails or succeeds, and which of the two is decided by the
  current status alone: pause succeeds exactly from active, resume exactly from paused,
  complete exactly from active or paused, terminate exactly from any status but
  terminated. A failure is the thrown error with its message about the allowed source
  states, never an unchanged assignment; a success carries the target status, the
  timestamp of the transition set to the current time, and the isActive flag of the
  target state.
\<close>

theorem assignment_transitions:
  "(case pause now reason pausedBy a of
      Inl e \<Rightarrow> status a \<noteq> ACTIVE \<and> e = Error ''Can only pause active assignments''
    | Inr a' \<Rightarrow> status a = ACTIVE \<and> status a' = PAUSED \<and> pausedAt a' = Some now
                \<and> \<not> isActive a')
   \<and> (case resume now reason a of
      Inl e \<Rightarrow> status a \<noteq> PAUSED \<and> e = Error ''Can only resume paused assignments''
    | Inr a' \<Rightarrow> status a = PAUSED \<and> status a' = ACTIVE \<and> resumedAt a' = Some now
                \<and> isActive a')
   \<and> (case complete now reason completedBy a of
      Inl e \<Rightarrow> status a \<noteq> ACTIVE \<and> status a \<noteq> PAUSED
               \<and> e = Error ''Can only complete active or paused assignments''
    | Inr a' \<Rightarrow> (status a = ACTIVE \<or> status a = PAUSED) \<and> status a' = COMPLETED
                \<and> isCompleted a' \<and> endedAt a' = Some now \<and> \<not> isActive a')
   \<and> (case terminate now treason terminatedBy' a of
      Inl e \<Rightarrow> status a = TERMINATED \<and> e = Error ''Assignment is already terminated''
    | Inr a' \<Rightarrow> status a \<noteq> TERMINATED \<and> status a' = TERMINATED
                \<and> endedAt a' = Some now \<and> \<not> isActive a')"
  by (simp add: pause_def resume_def complete_def terminate_def isCompleted_def Let_def)

section \<open>Theorems: session validity\<close>

text \<open>
  C6 as the spec words it fails at the instant of expiry: a session whose expiry equals
  the current time is active and unrevoked, and \<open>isValid\<close> accepts it although
  \<open>now < expiresAt\<close> is false.
\<close>

theorem isValid_strict_counterexample:
  "\<not> (isValid 1000 boundary_session \<longleftrightarrow>
        sessionActive boundary_session \<and> 1000 < expiresAt boundary_session
        \<and> revokedAt boundary_session = None)"
  by (simp add: isValid_def isExpired_def boundary_session_def)

text \<open>
  C6, amended. A session is valid iff it is active, the current time is not after
  \<open>expiresAt\<close> (the instant of expiry itself still counts) and it carries no revocation
  timestamp; it is refreshable iff it is active, has a refresh-token expiry that the
  current time is not after, and carries no revocation timestamp.
\<close>

theorem session_validity:
  "(isValid now s \<longleftrightarrow> sessionActive s \<and> now \<le> expiresAt s \<and> revokedAt s = None)
   \<and> (canRefresh now s \<longleftrightarrow>
        sessionActive s \<and> (\<exists>t. refreshTokenExpiresAt s = Some t \<and> now \<le> t)
        \<and> revokedAt s = None)"
  by (auto simp: isValid_def canRefresh_def isExpired_def isRefreshTokenExpired_def
           split: option.splits)

section \<open>Theorems: password validation\<close>

lemma in_push_if: "x \<in> set (push_if c m) \<longleftrightarrow> c \<and> x = m"
  by (auto simp: push_if_def)

lemma push_if_Nil: "push_if c m = [] \<longleftrightarrow> \<not> c"
  by (simp add: push_if_def)

lemma set_push_if_sub: "set (push_if c m) \<subseteq> {m}"
  by (auto simp: push_if_def)

text \<open>
  C8 as the spec words it fails on the empty password: its length is below 8 and it has
  no character of any class, yet the only error reported is that a password is required.
\<close>

theorem validatePassword_empty_counterexample:
  "length '''' < (8::nat)
   \<and> ''Password must be at least 8 characters long'' \<notin> set (errors (validatePassword ''''))"
  by (simp add: validatePassword_def)

text \<open>
  C8, amended. \<open>validatePassword\<close> is total. On the empty password it reports the single
  error that a password is required. On every other password the list of errors is
  made of the messages of the eight rules (two length bounds, four character classes,
  the deny-list, the sequential patterns) and of nothing else, each at most once, and
  a rule contributes its message exactly when it is violated, whatever the other rules
  say. The password is valid exactly when the list of errors is empty, which is the
  case exactly when it is not empty and violates none of the eight rules.
\<close>

theorem validatePassword_accumulates:
  "validatePassword [] = \<lparr>pvIsValid = False, errors = [''Password is required'']\<rparr>
   \<and> (pw \<noteq> [] \<longrightarrow>
        (''Password must be at least 8 characters long'' \<in> set (errors (validatePassword pw))
           \<longleftrightarrow> length pw < 8)
      \<and> (''Password must be no more than 128 characters long''
             \<in> set (errors (validatePassword pw))
           \<longleftrightarrow> length pw > 128)
      \<and> (''Password must contain at least one uppercase letter''
             \<in> set (errors (validatePassword pw))
           \<longleftrightarrow> \<not> list_ex is_upper pw)
      \<and> (''Password must contain at least one lowercase letter''
             \<in> set (errors (validatePassword pw))
           \<longleftrightarrow> \<not> list_ex is_lower pw)
      \<and> (''Password must contain at least one number''
             \<in> set (errors (validatePassword pw))
           \<longleftrightarrow> \<not> list_ex is_digit pw)
      \<and> (''Password must contain at least one special character''
             \<in> set (errors (validatePassword pw))
           \<longleftrightarrow> \<not> list_ex is_special pw)
      \<and> (''Password is too common. Please choose a stronger password''
             \<in> set (errors (validatePassword pw))
           \<longleftrightarrow> toLowerCase pw \<in> set commonPasswords)
      \<and> (''Password should not contain sequential characters''
             \<in> set (errors (validatePassword pw))
           \<longleftrightarrow> sequential_test (toLowerCase pw))
      \<and> set (errors (validatePassword pw))
          \<subseteq> {''Password must be at least 8 characters long'',
              ''Password must be no more than 128 characters long'',
              ''Password must contain at least one uppercase letter'',
              ''Password must contain at least one lowercase letter'',
              ''Password must contain at least one number'',
              ''Password must contain at least one special character'',
              ''Password is too common. Please choose a stronger password'',
              ''Password should not contain sequential characters''})
   \<and> distinct (errors (validatePassword pw))
   \<and> (pvIsValid (validatePassword pw) \<longleftrightarrow> errors (validatePassword pw) = [])
   \<and> (pvIsValid (validatePassword pw) \<longleftrightarrow>
        pw \<noteq> [] \<and> 8 \<le> length pw \<and> length pw \<le> 128
        \<and> list_ex is_upper pw \<and> list_ex is_lower pw \<and> list_ex is_digit pw
        \<and> list_ex is_special pw \<and> toLowerCase pw \<notin> set commonPasswords
        \<and> \<not> sequential_test (toLowerCase pw))"
proof -
  let ?r = "validatePassword pw"
  have rules: "pw \<noteq> [] \<Longrightarrow>
        (''Password must be at least 8 characters long'' \<in> set (errors ?r)
           \<longleftrightarrow> length pw < 8)
      \<and> (''Password must be no more than 128 characters long'' \<in> set (errors ?r)
           \<longleftrightarrow> length pw > 128)
      \<and> (''Password must contain at least one uppercase letter'' \<in> set (errors ?r)
           \<longleftrightarrow> \<not> list_ex is_upper pw)
      \<and> (''Password must contain at least one lowercase letter'' \<in> set (errors ?r)
           \<longleftrightarrow> \<not> list_ex is_lower pw)
      \<and> (''Password must contain at least one number'' \<in> set (errors ?r)
           \<longleftrightarrow> \<not> list_ex is_digit pw)
      \<and> (''Password must contain at least one special character'' \<in> set (errors ?r)
           \<longleftrightarrow> \<not> list_ex is_special pw)
      \<and> (''Password is too common. Please choose a stronger password'' \<in> set (errors ?r)
           \<longleftrightarrow> toLowerCase pw \<in> set commonPasswords)
      \<and> (''Password should not contain sequential characters'' \<in> set (errors ?r)
           \<longleftrightarrow> sequential_test (toLowerCase pw))"
    by (simp add: validatePassword_def Let_def in_push_if)
  have only: "pw \<noteq> [] \<Longrightarrow> set (errors ?r)
          \<subseteq> {''Password must be at least 8 characters long'',
              ''Password must be no more than 128 characters long'',
              ''Password must contain at least one uppercase letter'',
              ''Password must contain at least one lowercase letter'',
              ''Password must contain at least one number'',
              ''Password must contain at least one special character'',
              ''Password is too common. Please choose a stronger password'',
              ''Password should not contain sequential characters''}"
    unfolding validatePassword_def Let_def
    by (simp only: if_False PasswordValidation.simps set_append)
       (intro Un_least order_trans [OF set_push_if_sub];
        simp only: insert_subset empty_subsetI insertI1 insert_iff simp_thms)
  have dist: "distinct (errors ?r)"
    by (simp add: validatePassword_def Let_def in_push_if push_if_def)
  have empty: "pvIsValid ?r \<longleftrightarrow> errors ?r = []"
    by (simp add: validatePassword_def Let_def)
  have valid: "pvIsValid ?r \<longleftrightarrow>
        pw \<noteq> [] \<and> 8 \<le> length pw \<and> length pw \<le> 128
        \<and> list_ex is_upper pw \<and> list_ex is_lower pw \<and> list_ex is_digit pw
        \<and> list_ex is_special pw \<and> toLowerCase pw \<notin> set commonPasswords
        \<and> \<not> sequential_test (toLowerCase pw)"
    by (auto simp: validatePassword_def Let_def push_if_Nil)
  have nil: "validatePassword [] = \<lparr>pvIsValid = False, errors = [''Password is required'']\<rparr>"
    by (simp add: validatePassword_def)
  show ?thesis
    apply (intro conjI impI)
    using nil rules only dist empty valid by (simp_all only: simp_thms)
qed

theorem validatePassword_accumulates_witness:
  "''short'' \<noteq> []
   \<and> ''Password must be at least 8 characters long'' \<in> set (errors (validatePassword ''short''))
   \<and> ''Password must contain at least one uppercase letter''
        \<in> set (errors (validatePassword ''short''))
   \<and> ''Password must contain at least one number''
        \<in> set (errors (validatePassword ''short''))
   \<and> ''Password must contain at least one special character''
        \<in> set (errors (validatePassword ''short''))
   \<and> ''Password must contain at least one lowercase letter''
        \<notin> set (errors (validatePassword ''short''))
   \<and> \<not> pvIsValid (validatePassword ''short'')
   \<and> pvIsValid (validatePassword ''Passw0rd!'')
   \<and> errors (validatePassword ''Passw0rd!'') = []"
proof -
  have c: "list_ex is_lower ''short''" "\<not> list_ex is_upper ''short''"
    "\<not> list_ex is_digit ''short''" "\<not> list_ex is_special ''short''"
    by (simp_all add: is_lower_def is_upper_def is_digit_def is_special_def special_chars_def)
  have ne: "''short'' \<noteq> []" and l: "length ''short'' < 8" by simp_all
  from validatePassword_accumulates [of "''short''"] ne l c
  have short: "''Password must be at least 8 characters long''
         \<in> set (errors (validatePassword ''short''))
     \<and> ''Password must contain at least one uppercase letter''
         \<in> set (errors (validatePassword ''short''))
     \<and> ''Password must contain at least one number''
         \<in> set (errors (validatePassword ''short''))
     \<and> ''Password must contain at least one special character''
         \<in> set (errors (validatePassword ''short''))
     \<and> ''Password must contain at least one lowercase letter''
         \<notin> set (errors (validatePassword ''short''))
     \<and> \<not> pvIsValid (validatePassword ''short'')"
    by blast
  have g: "list_ex is_lower ''Passw0rd!''" "list_ex is_upper ''Passw0rd!''"
    "list_ex is_digit ''Passw0rd!''" "list_ex is_special ''Passw0rd!''"
    "toLowerCase ''Passw0rd!'' \<notin> set commonPasswords"
    "\<not> sequential_test (toLowerCase ''Passw0rd!'')"
    by (simp_all add: is_lower_def is_upper_def is_digit_def is_special_def special_chars_def
        toLowerCase_def lower_char_def uppercase_def lowercase_def commonPasswords_def
        sequential_test_def)
  have gl: "''Passw0rd!'' \<noteq> []" "8 \<le> length ''Passw0rd!''" "length ''Passw0rd!'' \<le> 128"
    by simp_all
  from validatePassword_accumulates [of "''Passw0rd!''"] g gl
  have good: "pvIsValid (validatePassword ''Passw0rd!'')
     \<and> errors (validatePassword ''Passw0rd!'') = []"
    by blast
  from ne short good show ?thesis by blast
qed

section \<open>Theorems: random passwords\<close>

lemma pick_in_set: "s \<noteq> [] \<Longrightarrow> pick r s \<in> set s"
  by (simp add: pick_def)

lemma fill_length: "length (fill rnd i len pw) = length pw + nat (len - i)"
proof (induction rnd i len pw rule: fill.induct)
  case (1 rnd i len pw)
  show ?case
  proof (cases "i < len")
    case True
    with 1 show ?thesis by (subst fill.simps) (simp add: nat_diff_distrib')
  next
    case False
    then show ?thesis by (subst fill.simps) simp
  qed
qed

lemma fill_keeps: "set pw \<subseteq> set (fill rnd i len pw)"
proof (induction rnd i len pw rule: fill.induct)
  case (1 rnd i len pw)
  show ?case
  proof (cases "i < len")
    case True
    with 1 show ?thesis by (subst fill.simps) auto
  next
    case False
    then show ?thesis by (subst fill.simps) simp
  qed
qed

lemma lowercase_class: "c \<in> set lowercase \<Longrightarrow> is_lower c"
proof -
  have "list_all is_lower lowercase" by (simp add: lowercase_def is_lower_def)
  then show "c \<in> set lowercase \<Longrightarrow> is_lower c" by (simp add: list_all_iff)
qed

lemma uppercase_class: "c \<in> set uppercase \<Longrightarrow> is_upper c"
proof -
  have "list_all is_upper uppercase" by (simp add: uppercase_def is_upper_def)
  then show "c \<in> set uppercase \<Longrightarrow> is_upper c" by (simp add: list_all_iff)
qed

lemma numbers_class: "c \<in> set numbers \<Longrightarrow> is_digit c"
proof -
  have "list_all is_digit numbers" by (simp add: numbers_def is_digit_def)
  then show "c \<in> set numbers \<Longrightarrow> is_digit c" by (simp add: list_all_iff)
qed

lemma symbols_class: "c \<in> set symbols \<Longrightarrow> is_special c"
proof -
  have "list_all is_special symbols"
    by (simp add: symbols_def is_special_def special_chars_def)
  then show "c \<in> set symbols \<Longrightarrow> is_special c" by (simp add: list_all_iff)
qed

lemma symbols_lower: "c \<in> set symbols \<Longrightarrow> lower_char c = c"
proof -
  have "list_all (\<lambda>c. lower_char c = c) symbols"
    by (simp add: symbols_def lower_char_def uppercase_def lowercase_def)
  then show "c \<in> set symbols \<Longrightarrow> lower_char c = c" by (simp add: list_all_iff)
qed

lemma common_no_symbol: "w \<in> set commonPasswords \<Longrightarrow> c \<in> set symbols \<Longrightarrow> c \<notin> set w"
proof -
  have "list_all (\<lambda>w. list_all (\<lambda>c. c \<notin> set w) symbols) commonPasswords"
    by (simp add: commonPasswords_def symbols_def)
  then show "w \<in> set commonPasswords \<Longrightarrow> c \<in> set symbols \<Longrightarrow> c \<notin> set w"
    by (simp add: list_all_iff)
qed

text \<open>A password with a symbol of the generator is on no deny-list, whatever its case.\<close>

lemma symbol_not_common:
  assumes "c \<in> set p" "c \<in> set symbols"
  shows "toLowerCase p \<notin> set commonPasswords"
proof
  assume "toLowerCase p \<in> set commonPasswords"
  from common_no_symbol [OF this assms(2)] have "c \<notin> set (toLowerCase p)" .
  moreover from assms have "lower_char c \<in> set (toLowerCase p)"
    by (simp add: toLowerCase_def)
  ultimately show False using symbols_lower [OF assms(2)] by simp
qed

lemma generated_chars:
  assumes "\<And>s. mset (shuffle s) = mset s"
  shows "pick (rnd 0) lowercase \<in> set (generateRandomPassword rnd shuffle len)"
    and "pick (rnd 1) uppercase \<in> set (generateRandomPassword rnd shuffle len)"
    and "pick (rnd 2) numbers \<in> set (generateRandomPassword rnd shuffle len)"
    and "pick (rnd 3) symbols \<in> set (generateRandomPassword rnd shuffle len)"
proof -
  let ?pw = "[pick (rnd 0) lowercase, pick (rnd 1) uppercase, pick (rnd 2) numbers,
              pick (rnd 3) symbols]"
  have s: "set (shuffle (fill rnd 4 len ?pw)) = set (fill rnd 4 len ?pw)"
    using assms by (metis set_mset_mset)
  have g: "generateRandomPassword rnd shuffle len = shuffle (fill rnd 4 len ?pw)"
    by (simp add: generateRandomPassword_def)
  have k: "set ?pw \<subseteq> set (fill rnd 4 len ?pw)" by (rule fill_keeps)
  show "pick (rnd 0) lowercase \<in> set (generateRandomPassword rnd shuffle len)"
    and "pick (rnd 1) uppercase \<in> set (generateRandomPassword rnd shuffle len)"
    and "pick (rnd 2) numbers \<in> set (generateRandomPassword rnd shuffle len)"
    and "pick (rnd 3) symbols \<in> set (generateRandomPassword rnd shuffle len)"
    using k unfolding g s by simp_all
qed

lemma generated_length:
  assumes "\<And>s. mset (shuffle s) = mset s"
  shows "int (length (generateRandomPassword rnd shuffle len)) = max 4 len"
proof -
  have "length (shuffle s) = length s" for s
    using assms by (metis size_mset)
  then show ?thesis
    by (simp add: generateRandomPassword_def fill_length)
qed

text \<open>
  C9 as the spec words it fails for a requested length of 2: the four guaranteed
  characters are always emitted, so the result has length 4, and it is too short to
  pass the validator.
\<close>

theorem generateRandomPassword_short_counterexample:
  "length (generateRandomPassword (\<lambda>i. 7 * i + 3) rev 2) \<noteq> 2
   \<and> \<not> pvIsValid (validatePassword (generateRandomPassword (\<lambda>i. 7 * i + 3) rev 2))"
  by (simp add: generateRandomPassword_def fill.simps pick_def lowercase_def uppercase_def
      numbers_def symbols_def validatePassword_def push_if_def)

text \<open>
  C9, amended. Whatever the random draws, and for every shuffle that permutes its
  argument, the generated password has the requested length when that is at least 4
  and length 4 otherwise, and it holds a lowercase letter, an uppercase letter, a digit
  and a symbol of the validator's class. When the requested length lies between 8 and
  128 and the draws did not produce one of the sequential patterns, the password passes
  \<open>validatePassword\<close>.
\<close>

theorem generateRandomPassword_props:
  assumes "\<And>s. mset (shuffle s) = mset s"
  shows "int (length (generateRandomPassword rnd shuffle len)) = max 4 len
    \<and> list_ex is_lower (generateRandomPassword rnd shuffle len)
    \<and> list_ex is_upper (generateRandomPassword rnd shuffle len)
    \<and> list_ex is_digit (generateRandomPassword rnd shuffle len)
    \<and> list_ex is_special (generateRandomPassword rnd shuffle len)
    \<and> (8 \<le> len \<and> len \<le> 128
         \<and> \<not> sequential_test (toLowerCase (generateRandomPassword rnd shuffle len))
       \<longrightarrow> pvIsValid (validatePassword (generateRandomPassword rnd shuffle len)))"
proof -
  let ?p = "generateRandomPassword rnd shuffle len"
  have ne: "lowercase \<noteq> []" "uppercase \<noteq> []" "numbers \<noteq> []" "symbols \<noteq> []"
    by (simp_all add: lowercase_def uppercase_def numbers_def symbols_def)
  note g = generated_chars [OF assms, of rnd len]
  have len: "int (length ?p) = max 4 len" by (rule generated_length [OF assms])
  have lo: "list_ex is_lower ?p"
    using g(1) lowercase_class [OF pick_in_set [OF ne(1)]] unfolding list_ex_iff by blast
  have up: "list_ex is_upper ?p"
    using g(2) uppercase_class [OF pick_in_set [OF ne(2)]] unfolding list_ex_iff by blast
  have di: "list_ex is_digit ?p"
    using g(3) numbers_class [OF pick_in_set [OF ne(3)]] unfolding list_ex_iff by blast
  have sp: "list_ex is_special ?p"
    using g(4) symbols_class [OF pick_in_set [OF ne(4)]] unfolding list_ex_iff by blast
  have nc: "toLowerCase ?p \<notin> set commonPasswords"
    using symbol_not_common [OF g(4) pick_in_set [OF ne(4)]] .
  have v: "pvIsValid (validatePassword ?p)"
    if "8 \<le> len" "len \<le> 128" "\<not> sequential_test (toLowerCase ?p)"
  proof -
    from len that have l: "\<not> length ?p < 8" "\<not> length ?p > 128" "?p \<noteq> []" by auto
    show ?thesis
      using l lo up di sp nc that(3)
      by (simp add: validatePassword_def Let_def push_if_Nil)
  qed
  from len lo up di sp v show ?thesis by blast
qed

theorem generateRandomPassword_props_witness:
  "generateRandomPassword (\<lambda>i. 7 * i + 3) rev 16 = ''ung?|+%70TMF>7Kd''
   \<and> length (generateRandomPassword (\<lambda>i. 7 * i + 3) rev 16) = 16
   \<and> pvIsValid (validatePassword (generateRandomPassword (\<lambda>i. 7 * i + 3) rev 16))"
proof -
  have p: "generateRandomPassword (\<lambda>i. 7 * i + 3) rev 16 = ''ung?|+%70TMF>7Kd''"
    by (simp add: generateRandomPassword_def fill.simps pick_def lowercase_def uppercase_def
        numbers_def symbols_def allChars_def)
  have s: "\<not> sequential_test (toLowerCase ''ung?|+%70TMF>7Kd'')"
    by (simp add: sequential_test_def toLowerCase_def lower_char_def uppercase_def
        lowercase_def)
  have m: "mset (rev s) = mset s" for s :: string by simp
  from generateRandomPassword_props [of rev "\<lambda>i. 7 * i + 3" 16, OF m] p s
  show ?thesis by simp
qed

section \<open>Theorems: access-token lifetime\<close>














section \<open>Evaluating the concrete installation\<close>

lemmas string_ops =
  toLowerCase_def lower_char_def uppercase_def lowercase_def trim_def is_space_def

lemmas validate_eval =
  validatePassword_def push_if_def is_upper_def is_lower_def is_digit_def is_special_def
  special_chars_def commonPasswords_def sequential_test_def

lemma passw0rd_valid: "pvIsValid (validatePassword ''Passw0rd!'')"
  by (simp add: validate_eval string_ops)

lemma new_password_valid: "pvIsValid (validatePassword ''N3w-Passw0rd!'')"
  by (simp add: validate_eval string_ops)

lemma alice_email_norm: "trim (toLowerCase ''Alice@Example.com'') = ''alice@example.com''"
  by (simp add: string_ops)

lemma alice_email_norm2: "trim (toLowerCase ''alice@example.com'') = ''alice@example.com''"
  by (simp add: string_ops)

lemma alice_email_norm3: "trim (toLowerCase '' Alice@Example.com '') = ''alice@example.com''"
  by (simp add: string_ops)

lemma register_alice:
  "register demo_libs 0 demo_draws alice_request None None empty_db =
     (succeeded ''Registration successful. Please check your email to verify your account.''
        alice_row
        \<lparr>accessToken = ''access.u1.s1'', refreshTokenJwt = ''refresh.u1.s1'',
         expiresIn = Num 3600\<rparr>,
      db_registered)"
proof -
  have e: "getAccessTokenExpirationTime (Some ''1h'') = Num 3600"
    by (simp add: getAccessTokenExpirationTime_def endsWith_def parseInt_def is_space_def
      is_radix_digit_def digit_value_def is_digit_def digits_value_def Let_def num_def)
  show ?thesis
    by (simp add: register_def alice_request_def empty_db_def alice_email_norm passw0rd_valid
        generateEmailVerificationToken_def insert_user_def hashPassword_def normalizeEmail_def
        alice_email_norm2 createSession_def session_generateTokens_def generateTokens_def
        demo_libs_def demo_draws_def alice_row_def alice_session_def db_registered_def e Let_def)
qed


lemma find_Some_sat: "find P xs = Some x \<Longrightarrow> P x \<and> x \<in> set xs"
  by (induction xs) (auto split: if_splits)

lemma find_None_all: "find P xs = None \<longleftrightarrow> (\<forall>x \<in> set xs. \<not> P x)"
  by (induction xs) auto

lemma failure_fields: "success (failure m) = False" "message (failure m) = Some m"
  by (simp_all add: failure_def)

section \<open>Theorems: refresh\<close>

lemma refresh_no_candidate:
  assumes "verifyRefreshToken L tok = Inr (owner, sessionId)"
    and "\<forall>s \<in> set (sessions d). sid s = sessionId \<and> userId s = owner \<longrightarrow> \<not> canRefresh now s"
  shows "refreshToken_op L now tok d = failure ''Invalid or expired refresh token''"
proof (cases "find (\<lambda>u. uid u = owner \<and> userActive u) (users d)")
  case None
  with assms(1) show ?thesis by (simp add: refreshToken_op_def)
next
  case (Some u)
  show ?thesis
  proof (cases "find (\<lambda>s. sid s = sessionId \<and> userId s = owner \<and> sessionActive s) (sessions d)")
    case None
    with assms(1) Some show ?thesis by (simp add: refreshToken_op_def)
  next
    case (Some s)
    from find_Some_sat [OF this] assms(2) have "\<not> canRefresh now s" by blast
    with assms(1) \<open>find _ (users d) = Some u\<close> Some show ?thesis
      by (simp add: refreshToken_op_def)
  qed
qed

text \<open>
  C1 as the spec words it fails for a token with a bad signature and for a token with
  a wrong discriminator: both are refused, but with the message of the function's
  \<^verbatim>\<open>catch\<close>, not with the generic one.
\<close>

theorem refreshToken_generic_message_counterexample:
  "jwt_verify demo_libs ''forged'' = JsonWebTokenError
   \<and> message (refreshToken_op demo_libs 1000 ''forged'' db_registered)
       = Some ''Token refresh failed''
   \<and> jwt_verify demo_libs ''access.u1.s1''
       = Decoded \<lparr>p_userId = Some ''u1'', p_sessionId = Some ''s1'', p_type = None\<rparr>
   \<and> message (refreshToken_op demo_libs 1000 ''access.u1.s1'' db_registered)
       = Some ''Token refresh failed''
   \<and> ''Token refresh failed'' \<noteq> ''Invalid or expired refresh token''"
  by (simp add: refreshToken_op_def verifyRefreshToken_def demo_libs_def demo_verify_def
      failure_def)

text \<open>
  C1, amended. Every refresh request whose token \<^verbatim>\<open>jwt.verify\<close> rejects (bad signature,
  expired) or whose payload carries a discriminator other than \<open>refresh\<close> is answered
  with success false and the message \<open>Token refresh failed\<close>. Every request whose token
  verifies, but for which no session row with the token's session id and user id can
  refresh (the row is missing, inactive, revoked or past its refresh-token expiry), is
  answered with success false and the message \<open>Invalid or expired refresh token\<close>.
\<close>

theorem refreshToken_failures:
  "(jwt_verify L tok = JsonWebTokenError \<or> jwt_verify L tok = TokenExpiredError
      \<or> (\<exists>p. jwt_verify L tok = Decoded p \<and> p_type p \<noteq> Some ''refresh'')
    \<longrightarrow> success (refreshToken_op L now tok d) = False
        \<and> message (refreshToken_op L now tok d) = Some ''Token refresh failed'')
   \<and> (verifyRefreshToken L tok = Inr (owner, sessionId)
      \<and> (\<forall>s \<in> set (sessions d).
            sid s = sessionId \<and> userId s = owner \<longrightarrow> \<not> canRefresh now s)
    \<longrightarrow> success (refreshToken_op L now tok d) = False
        \<and> message (refreshToken_op L now tok d) = Some ''Invalid or expired refresh token'')"
proof (intro conjI impI)
  assume a: "jwt_verify L tok = JsonWebTokenError \<or> jwt_verify L tok = TokenExpiredError
      \<or> (\<exists>p. jwt_verify L tok = Decoded p \<and> p_type p \<noteq> Some ''refresh'')"
  then have "refreshToken_op L now tok d = failure ''Token refresh failed''"
    by (auto simp: refreshToken_op_def verifyRefreshToken_def)
  then show "success (refreshToken_op L now tok d) = False"
    and "message (refreshToken_op L now tok d) = Some ''Token refresh failed''"
    by (simp_all add: failure_fields)
next
  assume b: "verifyRefreshToken L tok = Inr (owner, sessionId)
      \<and> (\<forall>s \<in> set (sessions d).
            sid s = sessionId \<and> userId s = owner \<longrightarrow> \<not> canRefresh now s)"
  then have "refreshToken_op L now tok d = failure ''Invalid or expired refresh token''"
    using refresh_no_candidate by blast
  then show "success (refreshToken_op L now tok d) = False"
    and "message (refreshToken_op L now tok d) = Some ''Invalid or expired refresh token''"
    by (simp_all add: failure_fields)
qed

theorem refreshToken_failures_witness:
  "message (refreshToken_op demo_libs 1000 ''forged'' db_registered)
     = Some ''Token refresh failed''
   \<and> success (refreshToken_op demo_libs 700000000 ''refresh.u1.s1'' db_registered) = False
   \<and> message (refreshToken_op demo_libs 700000000 ''refresh.u1.s1'' db_registered)
       = Some ''Invalid or expired refresh token''"
proof -
  have 1: "jwt_verify demo_libs ''forged'' = JsonWebTokenError"
    by (simp add: demo_libs_def demo_verify_def)
  have 2: "verifyRefreshToken demo_libs ''refresh.u1.s1'' = Inr (''u1'', ''s1'')"
    by (simp add: verifyRefreshToken_def demo_libs_def demo_verify_def)
  have 3: "\<forall>s \<in> set (sessions db_registered).
      sid s = ''s1'' \<and> userId s = ''u1'' \<longrightarrow> \<not> canRefresh 700000000 s"
    by (simp add: db_registered_def alice_session_def canRefresh_def isRefreshTokenExpired_def)
  from refreshToken_failures [of demo_libs "''forged''" 1000 db_registered] 1
  have "message (refreshToken_op demo_libs 1000 ''forged'' db_registered)
     = Some ''Token refresh failed''"
    by simp
  moreover
  from refreshToken_failures
    [of demo_libs "''refresh.u1.s1''" 700000000 db_registered "''u1''" "''s1''"] 2 3
  have "success (refreshToken_op demo_libs 700000000 ''refresh.u1.s1'' db_registered) = False
   \<and> message (refreshToken_op demo_libs 700000000 ''refresh.u1.s1'' db_registered)
       = Some ''Invalid or expired refresh token''"
    by blast
  ultimately show ?thesis by blast
qed

section \<open>Theorems: registration\<close>

text \<open>
  C3 as the spec words it fails when the user name collides with a row that the store
  scans before the row with the email: the lookup returns the former, and the message
  names the user name.
\<close>

theorem register_precedence_counterexample:
  "email alice_row = trim (toLowerCase (reg_email collide_request))
   \<and> alice_row \<in> set (users db_two_users)
   \<and> message (fst (register demo_libs 0 demo_draws3 collide_request None None db_two_users))
       = Some ''Username already taken''"
  by (simp add: register_def collide_request_def db_two_users_def bob_row_def alice_row_def
      failure_def toLowerCase_def lower_char_def uppercase_def lowercase_def trim_def
      is_space_def)

text \<open>
  C3, amended. A registration request whose normalised email belongs to an existing
  user is refused and writes nothing. The message is one of \<open>Email already registered\<close>
  and \<open>Username already taken\<close>; it is the former exactly when the row the lookup
  returns, the first in the store's order with that email or that user name, carries
  the email. That is so in particular when every row with the requested user name
  carries the requested email.
\<close>

theorem register_email_collision:
  assumes "\<exists>u \<in> set (users d). email u = trim (toLowerCase (reg_email data))"
  shows "snd (register L now dr data ip ua d) = d
    \<and> success (fst (register L now dr data ip ua d)) = False
    \<and> (message (fst (register L now dr data ip ua d)) = Some ''Email already registered''
        \<or> message (fst (register L now dr data ip ua d)) = Some ''Username already taken'')
    \<and> (message (fst (register L now dr data ip ua d)) = Some ''Email already registered''
        \<longleftrightarrow> (\<exists>u. find (\<lambda>u. email u = trim (toLowerCase (reg_email data))
                                \<or> username u = reg_username data) (users d) = Some u
                 \<and> email u = trim (toLowerCase (reg_email data))))
    \<and> ((\<forall>u \<in> set (users d). username u = reg_username data
            \<longrightarrow> email u = trim (toLowerCase (reg_email data)))
        \<longrightarrow> message (fst (register L now dr data ip ua d)) = Some ''Email already registered'')"
proof -
  let ?e = "trim (toLowerCase (reg_email data))"
  let ?P = "\<lambda>u. email u = ?e \<or> username u = reg_username data"
  from assms have "find ?P (users d) \<noteq> None"
    by (auto simp: find_None_all)
  then obtain x where x: "find ?P (users d) = Some x" by auto
  from find_Some_sat [OF x] have px: "?P x" and xin: "x \<in> set (users d)" by auto
  have r: "register L now dr data ip ua d =
      (failure (if email x = ?e then ''Email already registered''
                else ''Username already taken''), d)"
    using x by (simp add: register_def)
  show ?thesis
    using px xin x by (auto simp: r failure_fields)
qed

theorem register_email_collision_witness:
  "alice_row \<in> set (users db_registered)
   \<and> success (fst (register demo_libs 0 demo_draws3 collide_request None None db_registered))
       = False
   \<and> message (fst (register demo_libs 0 demo_draws3 collide_request None None db_registered))
       = Some ''Email already registered''"
proof -
  have e: "email alice_row = trim (toLowerCase (reg_email collide_request))"
    by (simp add: collide_request_def alice_row_def toLowerCase_def lower_char_def
        uppercase_def lowercase_def trim_def is_space_def)
  have m: "alice_row \<in> set (users db_registered)"
    by (simp add: db_registered_def)
  have u: "\<forall>u \<in> set (users db_registered). username u = reg_username collide_request
      \<longrightarrow> email u = trim (toLowerCase (reg_email collide_request))"
    using e by (simp add: db_registered_def)
  from e m have ex: "\<exists>u \<in> set (users db_registered).
      email u = trim (toLowerCase (reg_email collide_request))"
    by blast
  from register_email_collision [OF ex, of demo_libs 0 demo_draws3 None None] u m
  show ?thesis by blast
qed

section \<open>Theorems: login\<close>

text \<open>
  C5. In one and the same state, a login whose email matches no user and a login with
  the email of an existing user whose stored password the supplied one does not verify
  against get the same answer, success false with the message
  \<open>Invalid email or password\<close>, and both leave the state as it was.
\<close>

theorem login_no_enumeration:
  assumes "find (\<lambda>u. email u = trim (toLowerCase (login_email unknown))) (users d) = None"
    and "find (\<lambda>u. email u = trim (toLowerCase (login_email known))) (users d) = Some u"
    and "\<not> bcrypt_compare L (login_password known) (password u)"
  shows "login L now dr unknown ip ua d = (failure ''Invalid email or password'', d)
    \<and> login L now' dr' known ip' ua' d = (failure ''Invalid email or password'', d)
    \<and> success (failure ''Invalid email or password'') = False
    \<and> message (failure ''Invalid email or password'') = Some ''Invalid email or password''"
  using assms by (simp add: login_def validatePassword_user_def failure_fields)


theorem login_no_enumeration_witness:
  "login demo_libs 1000 demo_draws2
       \<lparr>login_email = ''nobody@example.com'', login_password = ''Passw0rd!'',
        rememberMe = False\<rparr> None None db_registered
     = (failure ''Invalid email or password'', db_registered)
   \<and> login demo_libs 2000 demo_draws3
       \<lparr>login_email = ''Alice@Example.com'', login_password = ''Wrong-Passw0rd!'',
        rememberMe = True\<rparr> None None db_registered
     = (failure ''Invalid email or password'', db_registered)"
proof -
  let ?unknown = "\<lparr>login_email = ''nobody@example.com'', login_password = ''Passw0rd!'',
        rememberMe = False\<rparr>"
  let ?known = "\<lparr>login_email = ''Alice@Example.com'', login_password = ''Wrong-Passw0rd!'',
        rememberMe = True\<rparr>"
  have 1: "find (\<lambda>u. email u = trim (toLowerCase (login_email ?unknown)))
      (users db_registered) = None"
    by (simp add: db_registered_def alice_row_def string_ops)
  have 2: "find (\<lambda>u. email u = trim (toLowerCase (login_email ?known)))
      (users db_registered) = Some alice_row"
    by (simp add: db_registered_def alice_row_def string_ops)
  have 3: "\<not> bcrypt_compare demo_libs (login_password ?known) (password alice_row)"
    by (simp add: demo_libs_def alice_row_def)
  from login_no_enumeration [OF 1 2 3, of 1000 demo_draws2 None None 2000 demo_draws3 None None]
  show ?thesis by simp
qed

lemma written_row_same: "written_row u u = u"
  by (simp add: written_row_def keep_defined_def split: option.splits)

lemma written_row_password: "password (written_row r u) = password u"
  by (simp add: written_row_def)

lemma written_row_uid: "uid (written_row r u) = uid u"
  by (simp add: written_row_def)

lemma hooks_uid: "uid (normalizeEmail (hashPassword L u)) = uid u"
  by (simp add: normalizeEmail_def hashPassword_def)

text \<open>
  What a successful login does to the stored credential: the row of the user is
  rewritten from the entity after its \<^verbatim>\<open>BeforeUpdate\<close> hooks, whose password is the hash
  of the password column as it was read, that is, the hash of a hash.
\<close>

lemma login_success_rehashes:
  assumes "find (\<lambda>u. email u = trim (toLowerCase (login_email data))) (users d) = Some u"
    and "find (\<lambda>r. uid r = uid u) (users d) = Some u"
    and "userActive u"
    and "bcrypt_compare L (login_password data) (password u)"
    and "lastLoginAt u \<noteq> Some now"
    and "password u \<noteq> []"
    and "r \<in> set (users (snd (login L now dr data ip ua d)))"
    and "uid r = uid u"
  shows "password r = bcrypt_hash L (password u) 12"
proof -
  let ?u1 = "u\<lparr>lastLoginAt := Some now\<rparr>"
  let ?u' = "normalizeEmail (hashPassword L ?u1)"
  have ne: "written_row u ?u1 \<noteq> u"
  proof
    assume "written_row u ?u1 = u"
    then have "lastLoginAt (written_row u ?u1) = lastLoginAt u" by simp
    with assms(5) show False by (simp add: written_row_def keep_defined_def)
  qed
  have s: "save_user L ?u1 d =
      (?u', d\<lparr>users := filter (\<lambda>x. uid x \<noteq> uid u) (users d) @ [written_row u ?u']\<rparr>)"
    using assms(2) ne by (simp add: save_user_def Let_def)
  have "users (snd (login L now dr data ip ua d))
      = filter (\<lambda>x. uid x \<noteq> uid u) (users d) @ [written_row u ?u']"
    using assms(1,3,4) s
    by (simp add: login_def validatePassword_user_def createSession_def Let_def
        split: prod.splits)
  with assms(7,8) have "r = written_row u ?u'"
    by auto
  then show ?thesis
    using assms(6) by (simp add: written_row_password normalizeEmail_def hashPassword_def)
qed

text \<open>
  C4 is right about what login ought to do and the source does otherwise. Alice
  registers with the password \<open>Passw0rd!\<close>; her first login with it succeeds, and saving
  the entity hashes the stored hash once more; her second login with the same password
  is refused.
\<close>

theorem login_twice_refused:
  "snd (register demo_libs 0 demo_draws alice_request None None empty_db) = db_registered
   \<and> success (fst (register demo_libs 0 demo_draws alice_request None None empty_db))
   \<and> success (fst (login demo_libs 1000 demo_draws2 alice_login None None db_registered))
   \<and> map password
        (users (snd (login demo_libs 1000 demo_draws2 alice_login None None db_registered)))
       = [''$2a$$2a$Passw0rd!'']
   \<and> fst (login demo_libs 2000 demo_draws3 alice_login None None
            (snd (login demo_libs 1000 demo_draws2 alice_login None None db_registered)))
       = failure ''Invalid email or password''"
proof -
  have u2: "users (snd (login demo_libs 1000 demo_draws2 alice_login None None db_registered))
      = [alice_row\<lparr>lastLoginAt := Some 1000, password := ''$2a$$2a$Passw0rd!''\<rparr>]"
    by (simp add: login_def alice_login_def db_registered_def alice_row_def string_ops
        validatePassword_user_def demo_libs_def save_user_def hashPassword_def
        normalizeEmail_def createSession_def Let_def written_row_def keep_defined_def)
  have s1: "success (fst (login demo_libs 1000 demo_draws2 alice_login None None db_registered))"
    by (simp add: login_def alice_login_def db_registered_def alice_row_def string_ops
        validatePassword_user_def demo_libs_def save_user_def hashPassword_def
        normalizeEmail_def createSession_def Let_def succeeded_def written_row_def
        keep_defined_def)
  have l2': "fst (login demo_libs 2000 demo_draws3 alice_login None None d2)
       = failure ''Invalid email or password''"
    if "users d2 = [alice_row\<lparr>lastLoginAt := Some 1000, password := ''$2a$$2a$Passw0rd!''\<rparr>]"
    for d2
    using that
    by (simp add: login_def alice_row_def alice_login_def string_ops
        validatePassword_user_def demo_libs_def)
  have l2: "fst (login demo_libs 2000 demo_draws3 alice_login None None
            (snd (login demo_libs 1000 demo_draws2 alice_login None None db_registered)))
       = failure ''Invalid email or password''"
    by (rule l2' [OF u2])
  have p: "map password
        (users (snd (login demo_libs 1000 demo_draws2 alice_login None None db_registered)))
       = [''$2a$$2a$Passw0rd!'']"
    by (simp add: u2)
  show ?thesis
    using s1 p l2 by (simp add: register_alice succeeded_def)
qed

section \<open>Theorems: password reset\<close>

text \<open>
  What \<open>resetPassword\<close> does when the first row with an unexpired reset expiry is the
  row of the token's holder: the call succeeds, the stored password becomes the hash
  of the new password and no session of the user stays active. The two reset fields
  are set to \<^verbatim>\<open>undefined\<close> on the entity, which \<^verbatim>\<open>save\<close> skips: the row keeps the token
  hash and its expiry.
\<close>

lemma resetPassword_first_pending:
  assumes "pvIsValid (validatePassword (newPassword data))"
    and "find (reset_pending now) (users d) = Some u"
    and "find (\<lambda>r. uid r = uid u) (users d) = Some u"
    and "passwordResetToken u = Some h" and "h \<noteq> []"
    and "bcrypt_compare L (reset_token data) h"
    and "password u \<noteq> newPassword data"
  shows "fst (resetPassword L now data d) = \<lparr>ok = True, msg = ''Password reset successfully''\<rparr>
    \<and> (\<forall>r \<in> set (users (snd (resetPassword L now data d))).
          uid r = uid u \<longrightarrow>
            password r = bcrypt_hash L (newPassword data) 12
            \<and> passwordResetToken r = Some h
            \<and> passwordResetExpires r = passwordResetExpires u)
    \<and> (\<forall>s \<in> set (sessions (snd (resetPassword L now data d))).
          userId s = uid u \<longrightarrow> \<not> sessionActive s)"
proof -
  let ?u1 = "u\<lparr>password := newPassword data, passwordResetToken := None,
               passwordResetExpires := None\<rparr>"
  let ?u' = "normalizeEmail (hashPassword L ?u1)"
  let ?row = "written_row u ?u'"
  have np: "newPassword data \<noteq> []"
    using assms(1) by (auto simp: validatePassword_def)
  have ne: "written_row u ?u1 \<noteq> u"
  proof
    assume "written_row u ?u1 = u"
    then have "password (written_row u ?u1) = password u" by simp
    with assms(7) show False by (simp add: written_row_password)
  qed
  have s: "save_user L ?u1 d =
      (?u', d\<lparr>users := filter (\<lambda>x. uid x \<noteq> uid u) (users d) @ [?row]\<rparr>)"
    using assms(3) ne by (simp add: save_user_def Let_def)
  have id: "uid ?u' = uid u"
    by (simp add: hooks_uid)
  have r: "resetPassword L now data d =
      (\<lparr>ok = True, msg = ''Password reset successfully''\<rparr>,
       revoke_active_sessions now (uid u) ''Password reset''
         (d\<lparr>users := filter (\<lambda>x. uid x \<noteq> uid u) (users d) @ [?row]\<rparr>))"
    using assms(1,2,4,5,6) s id by (simp add: resetPassword_def Let_def)
  have f: "password ?row = bcrypt_hash L (newPassword data) 12
      \<and> passwordResetToken ?row = Some h
      \<and> passwordResetExpires ?row = passwordResetExpires u"
    using np assms(4)
    by (simp add: written_row_def keep_defined_def normalizeEmail_def hashPassword_def)
  have u: "users (snd (resetPassword L now data d))
      = filter (\<lambda>x. uid x \<noteq> uid u) (users d) @ [?row]"
    by (simp add: r revoke_active_sessions_def)
  have rows: "\<forall>r \<in> set (users (snd (resetPassword L now data d))).
          uid r = uid u \<longrightarrow>
            password r = bcrypt_hash L (newPassword data) 12
            \<and> passwordResetToken r = Some h
            \<and> passwordResetExpires r = passwordResetExpires u"
    using f unfolding u by auto
  have sess: "\<forall>s \<in> set (sessions (snd (resetPassword L now data d))).
          userId s = uid u \<longrightarrow> \<not> sessionActive s"
    by (auto simp: r revoke_active_sessions_def)
  from r rows sess show ?thesis by simp
qed

text \<open>
  C2 is right about what a reset ought to do and the source does otherwise. Bob and
  Alice both hold an unexpired reset token, Bob's row first. Alice presents her own
  token with a strong new password: the lookup returns Bob's row, her token does not
  match his hash, and the reset is refused; nothing is written.
\<close>

theorem resetPassword_two_pending_refused:
  "pvIsValid (validatePassword (newPassword alice_reset))
   \<and> bcrypt_compare demo_libs (reset_token alice_reset) ''$2a$alicetoken''
   \<and> resetPassword demo_libs 1000 alice_reset db_two_pending
       = (\<lparr>ok = False, msg = ''Invalid or expired reset token''\<rparr>, db_two_pending)"
  by (simp add: resetPassword_def alice_reset_def new_password_valid db_two_pending_def
      reset_pending_def bob_row_def demo_libs_def)

end
